theory Spec2Isabelle
  imports Complex_Main "HOL-Library.Char_ord" "HOL-Library.List_Lexorder"
    "HOL-Library.Product_Lexorder" "HOL-Library.Sublist"
begin

section \<open>Numbers and the numpy reducers used by \<^verbatim>\<open>eval_utils.py\<close>\<close>

text \<open>
  The module computes with numpy arrays of doubles. A number is modelled as a real or
  \<open>NaN\<close>: rounding, overflow and the infinities of IEEE arithmetic are outside the
  model, NaN and the way it propagates through comparisons and reducers are inside.
  A comparison with NaN on either side is false, as in numpy.
\<close>

datatype fnum = NaN | Num real

fun is_nan :: "fnum \<Rightarrow> bool" where
  "is_nan NaN = True"
| "is_nan (Num _) = False"

fun fgt :: "fnum \<Rightarrow> fnum \<Rightarrow> bool" where
  "fgt (Num a) (Num b) = (a > b)"
| "fgt _ _ = False"

fun flt :: "fnum \<Rightarrow> fnum \<Rightarrow> bool" where
  "flt (Num a) (Num b) = (a < b)"
| "flt _ _ = False"


fun fadd :: "fnum \<Rightarrow> fnum \<Rightarrow> fnum" where
  "fadd (Num a) (Num b) = Num (a + b)"
| "fadd _ _ = NaN"

text \<open>The non-NaN entries of an array, in order.\<close>

fun finite_values :: "fnum list \<Rightarrow> real list" where
  "finite_values [] = []"
| "finite_values (NaN # xs) = finite_values xs"
| "finite_values (Num v # xs) = v # finite_values xs"

text \<open>
  \<^verbatim>\<open>mask.astype(float)\<close>: True becomes 1.0 and False 0.0.
  \<^verbatim>\<open>np.mean\<close> of an array of numbers: the sum over the length, and NaN (with a
  warning, not an error) for an empty array.
\<close>

definition astype_float :: "bool list \<Rightarrow> real list" where
  "astype_float bs = map (\<lambda>b. if b then 1 else 0) bs"

definition np_mean :: "real list \<Rightarrow> fnum" where
  "np_mean xs = (if xs = [] then NaN else Num (sum_list xs / real (length xs)))"

text \<open>
  \<^verbatim>\<open>np.nanpercentile(a, q)\<close> with the default (linear) method: NaN entries are
  dropped, the rest sorted; the virtual index is \<open>q / 100 * (n - 1)\<close>, the entry
  below it and the next one (clipped to the last) are interpolated by numpy's
  \<^verbatim>\<open>_lerp\<close>. No entry left gives NaN (with a warning).
\<close>

definition lerp :: "real \<Rightarrow> real \<Rightarrow> real \<Rightarrow> real" where
  "lerp a b t = (if t < 1 / 2 then a + (b - a) * t else b - (b - a) * (1 - t))"

definition nanpercentile :: "fnum list \<Rightarrow> real \<Rightarrow> fnum" where
  "nanpercentile a q =
     (let vs = sort (finite_values a); n = length vs in
      if n = 0 then NaN
      else
        let virtual_index = q / 100 * real (n - 1);
            previous_index = nat \<lfloor>virtual_index\<rfloor>;
            next_index = min (previous_index + 1) (n - 1);
            gamma = virtual_index - real previous_index
        in Num (lerp (vs ! previous_index) (vs ! next_index) gamma))"

text \<open>
  \<^verbatim>\<open>np.nanmedian\<close> of all the entries of an array: the middle of the sorted non-NaN
  entries, the mean of the two middle ones for an even count, NaN when none is left.
\<close>

definition nanmedian :: "fnum list \<Rightarrow> fnum" where
  "nanmedian a =
     (let vs = sort (finite_values a); n = length vs in
      if n = 0 then NaN
      else if odd n then Num (vs ! (n div 2))
      else Num ((vs ! (n div 2 - 1) + vs ! (n div 2)) / 2))"

section \<open>ThresholdScorer: \<^verbatim>\<open>percent_score\<close>\<close>

text \<open>
  The function returns a pair for \<^verbatim>\<open>'right'\<close> and \<^verbatim>\<open>'left'\<close>, a triple for
  \<^verbatim>\<open>'both'\<close>, and falls off its end (Python's \<^verbatim>\<open>None\<close>) for any other string.
\<close>

datatype score = PyNone | Score2 fnum fnum | Score3 fnum fnum fnum

definition percent_score :: "fnum list \<Rightarrow> fnum list \<Rightarrow> string \<Rightarrow> score" where
  "percent_score null_dist corr_dist how =
     (if how = ''right'' then
        let perc_95 = nanpercentile null_dist 95;
            above_threshold = map (\<lambda>c. fgt c perc_95) corr_dist
        in Score2 (np_mean (astype_float above_threshold)) perc_95
      else if how = ''left'' then
        let perc_5 = nanpercentile null_dist 5;
            below_threshold = map (\<lambda>c. flt c perc_5) corr_dist
        in Score2 (np_mean (astype_float below_threshold)) perc_5
      else if how = ''both'' then
        let perc_95 = nanpercentile null_dist 95;
            above_threshold = map (\<lambda>c. fgt c perc_95) corr_dist;
            perc_5 = nanpercentile null_dist 5;
            below_threshold = map (\<lambda>c. flt c perc_5) corr_dist
        in Score3 (fadd (np_mean (astype_float above_threshold))
                        (np_mean (astype_float below_threshold))) perc_95 perc_5
      else PyNone)"

section \<open>Correlation matrices\<close>

text \<open>
  \<^verbatim>\<open>np.corrcoef\<close>: the matrix of Pearson correlations between the rows it is given
  (between the rows of both arguments, stacked, when it is given two). Entry \<open>(i, j)\<close>
  is the covariance of rows \<open>i\<close> and \<open>j\<close> divided by both standard deviations.
  A row holding a NaN and a row of zero variance (a constant row, or a row of fewer than
  two entries) make every entry they take part in NaN.
\<close>

definition cov :: "real list \<Rightarrow> real list \<Rightarrow> real" where
  "cov xs ys =
     (let avg_x = sum_list xs / real (length xs);
          avg_y = sum_list ys / real (length ys)
      in sum_list (map2 (\<lambda>a b. (a - avg_x) * (b - avg_y)) xs ys) / (real (length xs) - 1))"

definition pearson :: "fnum list \<Rightarrow> fnum list \<Rightarrow> fnum" where
  "pearson x y =
     (if list_ex is_nan x \<or> list_ex is_nan y then NaN
      else
        let xs = finite_values x; ys = finite_values y in
        if cov xs xs = 0 \<or> cov ys ys = 0 then NaN
        else Num (cov xs ys / sqrt (cov xs xs) / sqrt (cov ys ys)))"

definition corrcoef :: "fnum list list \<Rightarrow> fnum list list" where
  "corrcoef X = map (\<lambda>x. map (\<lambda>y. pearson x y) X) X"

text \<open>\<^verbatim>\<open>np.fill_diagonal(corr, np.nan)\<close> on a matrix (a list of rows).\<close>

definition fill_diagonal :: "fnum list list \<Rightarrow> fnum list list" where
  "fill_diagonal corr = map (\<lambda>(i, r). r[i := NaN]) (enumerate 0 corr)"

section \<open>The profile dataset\<close>

text \<open>
  A dataframe is a list of rows under a list of metadata column names. A row carries its
  index label, its metadata cells and its profile vector (the values of the feature
  columns, which \<^verbatim>\<open>infer_cp_features\<close> of pycytominer picks; that partition is taken as
  given). A metadata cell with no entry is a missing value. The key columns handed to the
  functions below are metadata columns; the names \<^verbatim>\<open>profiles\<close> and \<^verbatim>\<open>correlation\<close>,
  which the module gives to columns of its own, are not among them, and the two keys of
  a pair function are different columns.
\<close>

datatype error = KeyError | IndexError | ValueError

record row =
  label :: int
  meta :: "(string \<times> string) list"
  features :: "fnum list"

record dataframe =
  meta_columns :: "string list"
  rows :: "row list"

definition cell :: "row \<Rightarrow> string \<Rightarrow> string option" where
  "cell r c = map_of (meta r) c"

definition get_featuredata :: "row list \<Rightarrow> fnum list list" where
  "get_featuredata rs = map features rs"

text \<open>
  \<^verbatim>\<open>groupby(key)\<close>: one group per distinct key in sorted key order, each with its
  rows in their original order; rows whose key is missing belong to no group.
\<close>

definition groupby :: "('r \<Rightarrow> 'k::linorder option) \<Rightarrow> 'r list \<Rightarrow> ('k \<times> 'r list) list" where
  "groupby key rs =
     map (\<lambda>k. (k, filter (\<lambda>r. key r = Some k) rs)) (sort (remdups (List.map_filter key rs)))"

text \<open>
  \<^verbatim>\<open>df.reset_index(drop=True, inplace=True)\<close> relabels the rows of the caller's
  dataframe \<open>0, 1, \<dots>\<close>; \<^verbatim>\<open>df.loc[labels]\<close> looks rows up by label, and raises
  KeyError for a label no row has.
\<close>

definition reset_index :: "dataframe \<Rightarrow> dataframe" where
  "reset_index df = df\<lparr>rows := map (\<lambda>(i, r). r\<lparr>label := int i\<rparr>) (enumerate 0 (rows df))\<rparr>"

definition loc :: "dataframe \<Rightarrow> nat list \<Rightarrow> error + row list" where
  "loc df labels =
     (if \<forall>l \<in> set labels. int l \<in> set (map label (rows df))
      then Inr (concat (map (\<lambda>l. filter (\<lambda>r. label r = int l) (rows df)) labels))
      else Inl KeyError)"

section \<open>ReplicateCorrelator: \<^verbatim>\<open>corr_between_replicates\<close>\<close>

text \<open>
  The loop over the groups appends one row (group name, correlation) per group. Every
  function below returns the caller's dataframe as the call leaves it, next to its
  result.
\<close>

fun replicates_loop :: "(string \<times> row list) list \<Rightarrow> (string \<times> fnum) list \<Rightarrow> (string \<times> fnum) list" where
  "replicates_loop [] replicate_corr_df = replicate_corr_df"
| "replicates_loop ((name, grp) # gs) replicate_corr_df =
     (let group_features = get_featuredata grp;
          corr = corrcoef group_features;
          replicate_corr =
            (if length group_features = 1 then NaN
             else nanmedian (concat (fill_diagonal corr)))
      in replicates_loop gs (replicate_corr_df @ [(name, replicate_corr)]))"

definition corr_between_replicates ::
  "dataframe \<Rightarrow> string \<Rightarrow> dataframe \<times> (error + (string \<times> fnum) list)" where
  "corr_between_replicates df group_by_feature =
     (if group_by_feature \<notin> set (meta_columns df) then (df, Inl KeyError)
      else (df, Inr (replicates_loop (groupby (\<lambda>r. cell r group_by_feature) (rows df)) [])))"

section \<open>NullReplicateSampler: \<^verbatim>\<open>corr_between_non_replicates\<close>\<close>

text \<open>
  The random source is the list of the draws that the successive calls of
  \<^verbatim>\<open>random.choices\<close> return; the loop takes one per iteration. \<open>None\<close> is a loop
  that is still running when the draws are used up, \<open>Some (Inl e)\<close> an exception,
  \<open>Some (Inr xs)\<close> the returned list. \<^verbatim>\<open>random.choices\<close> raises IndexError on an
  empty population when it is asked for at least one element. A sample of one row has a
  scalar for its correlation "matrix", on which \<^verbatim>\<open>np.fill_diagonal\<close> raises ValueError.
\<close>

fun non_replicates_loop ::
  "dataframe \<Rightarrow> int \<Rightarrow> int \<Rightarrow> string \<Rightarrow> nat list list \<Rightarrow> fnum list \<Rightarrow> (error + fnum list) option" where
  "non_replicates_loop df n_samples n_replicates metadata_compound_name draws null_corr =
     (if int (length null_corr) < n_samples then
        (if rows df = [] \<and> 0 < n_replicates then Some (Inl IndexError)
         else case draws of
           [] \<Rightarrow> None
         | compounds # rest \<Rightarrow>
             (case loc df compounds of
                Inl e \<Rightarrow> Some (Inl e)
              | Inr sample \<Rightarrow>
                  if metadata_compound_name \<notin> set (meta_columns df) then Some (Inl KeyError)
                  else if int (length (remdups (map (\<lambda>r. cell r metadata_compound_name) sample)))
                            = n_replicates
                  then
                    (let sample_features = get_featuredata sample;
                         corr = corrcoef sample_features
                     in if length sample_features = 1 then Some (Inl ValueError)
                        else non_replicates_loop df n_samples n_replicates metadata_compound_name
                               rest (null_corr @ [nanmedian (concat (fill_diagonal corr))]))
                  else non_replicates_loop df n_samples n_replicates metadata_compound_name
                         rest null_corr))
      else Some (Inr null_corr))"

definition corr_between_non_replicates ::
  "dataframe \<Rightarrow> int \<Rightarrow> int \<Rightarrow> string \<Rightarrow> nat list list
     \<Rightarrow> dataframe \<times> (error + fnum list) option" where
  "corr_between_non_replicates df n_samples n_replicates metadata_compound_name draws =
     (let df' = reset_index df
      in (df', non_replicates_loop df' n_samples n_replicates metadata_compound_name draws []))"

section \<open>PairCorrelator: \<^verbatim>\<open>corr_between_perturbation_pairs\<close>\<close>

text \<open>
  \<open>replicate_grouped\<close> is the table with one row per (common, perturbation) pair and
  the list of that pair's profile vectors; \<open>common_grouped\<close> groups that table again
  by the common key alone, collecting the profile lists.
\<close>

definition replicate_grouped ::
  "dataframe \<Rightarrow> string \<Rightarrow> string \<Rightarrow> ((string \<times> string) \<times> fnum list list) list" where
  "replicate_grouped df metadata_common metadata_perturbation =
     map (\<lambda>(k, g). (k, get_featuredata g))
       (groupby (\<lambda>r. case (cell r metadata_common, cell r metadata_perturbation) of
                        (Some a, Some b) \<Rightarrow> Some (a, b)
                      | _ \<Rightarrow> None) (rows df))"

definition common_grouped ::
  "((string \<times> string) \<times> fnum list list) list \<Rightarrow> (string \<times> fnum list list list) list" where
  "common_grouped rg = map (\<lambda>(k, g). (k, map snd g)) (groupby (\<lambda>t. Some (fst (fst t))) rg)"

text \<open>
  Lines 141 to 143: the correlation matrix of both profile lists stacked, cut down to
  the rows of the first list and the columns of the second, and its median.
\<close>

definition cross_block :: "nat \<Rightarrow> fnum list list \<Rightarrow> fnum list list" where
  "cross_block n corr = map (drop n) (take n corr)"

fun pairs_loop :: "(string \<times> fnum list list list) list \<Rightarrow> fnum list \<Rightarrow> fnum list" where
  "pairs_loop [] replicate_corr = replicate_corr"
| "pairs_loop ((name, profiles) # cg) replicate_corr =
     (if length profiles > 1 then
        (let compound1_profiles = profiles ! 0;
             compound2_profiles = profiles ! 1;
             corr = corrcoef (compound1_profiles @ compound2_profiles);
             corr' = cross_block (length (profiles ! 0)) corr
         in pairs_loop cg (replicate_corr @ [nanmedian (concat corr')]))
      else pairs_loop cg replicate_corr)"

definition corr_between_perturbation_pairs ::
  "dataframe \<Rightarrow> string \<Rightarrow> string \<Rightarrow> dataframe \<times> (error + fnum list)" where
  "corr_between_perturbation_pairs df metadata_common metadata_perturbation =
     (if metadata_common \<notin> set (meta_columns df) \<or> metadata_perturbation \<notin> set (meta_columns df)
      then (df, Inl KeyError)
      else (df, Inr (pairs_loop
                       (common_grouped (replicate_grouped df metadata_common metadata_perturbation)) [])))"

section \<open>NullPairSampler: \<^verbatim>\<open>corr_between_perturbation_non_pairs\<close>\<close>

text \<open>
  Each draw is the pair of table positions that \<^verbatim>\<open>random.choices(..., k=2)\<close> returns.
  The slice of line 185 is taken at the length of the profile list of the table's row 0.
\<close>

fun non_pairs_loop ::
  "((string \<times> string) \<times> fnum list list) list \<Rightarrow> int \<Rightarrow> (nat \<times> nat) list \<Rightarrow> fnum list
     \<Rightarrow> (error + fnum list) option" where
  "non_pairs_loop rg n_samples draws null_corr =
     (if int (length null_corr) < n_samples then
        (if rg = [] then Some (Inl IndexError)
         else case draws of
           [] \<Rightarrow> None
         | compounds # rest \<Rightarrow>
             if \<not> (fst compounds < length rg \<and> snd compounds < length rg)
             then Some (Inl IndexError)
             else
               (let compound1_moa = fst (fst (rg ! fst compounds));
                    compound2_moa = fst (fst (rg ! snd compounds))
                in if compound1_moa \<noteq> compound2_moa then
                     (let compound1_profiles = snd (rg ! fst compounds);
                          compound2_profiles = snd (rg ! snd compounds);
                          corr = corrcoef (compound1_profiles @ compound2_profiles);
                          corr' = cross_block (length (snd (rg ! 0))) corr
                      in non_pairs_loop rg n_samples rest (null_corr @ [nanmedian (concat corr')]))
                   else non_pairs_loop rg n_samples rest null_corr))
      else Some (Inr null_corr))"

definition corr_between_perturbation_non_pairs ::
  "dataframe \<Rightarrow> int \<Rightarrow> string \<Rightarrow> string \<Rightarrow> (nat \<times> nat) list
     \<Rightarrow> dataframe \<times> (error + fnum list) option" where
  "corr_between_perturbation_non_pairs df n_samples metadata_common metadata_perturbation draws =
     (let df' = reset_index df
      in if metadata_common \<notin> set (meta_columns df') \<or> metadata_perturbation \<notin> set (meta_columns df')
         then (df', Some (Inl KeyError))
         else (df', non_pairs_loop (replicate_grouped df' metadata_common metadata_perturbation)
                      n_samples draws []))"

section \<open>The threshold and the fraction, in the spec's words\<close>





section \<open>The values the loops append\<close>

text \<open>
  Names for what the statements below talk about. \<open>sample_correlation\<close> is the value
  lines 96 to 99 (and 67 to 68) compute from a group of rows; \<open>drawn_rows\<close> are the rows
  at the drawn positions. \<open>pair_correlation\<close> is the value lines 141 to 143 compute
  from two profile lists: the median of the block of the joint correlation matrix whose
  rows are the first list's profiles and whose columns are the second's.
  \<open>null_pair_correlation\<close> is the value lines 182 to 186 compute for a draw of two
  positions of the grouped table.
\<close>

definition sample_correlation :: "row list \<Rightarrow> fnum" where
  "sample_correlation sample =
     nanmedian (concat (fill_diagonal (corrcoef (get_featuredata sample))))"

definition drawn_rows :: "dataframe \<Rightarrow> nat list \<Rightarrow> row list" where
  "drawn_rows df compounds = map (\<lambda>i. rows df ! i) compounds"

definition pair_correlation :: "fnum list list \<Rightarrow> fnum list list \<Rightarrow> fnum" where
  "pair_correlation compound1_profiles compound2_profiles =
     nanmedian (concat (cross_block (length compound1_profiles)
       (corrcoef (compound1_profiles @ compound2_profiles))))"

definition null_pair_correlation ::
  "((string \<times> string) \<times> fnum list list) list \<Rightarrow> nat \<times> nat \<Rightarrow> fnum" where
  "null_pair_correlation rg compounds =
     nanmedian (concat (cross_block (length (snd (rg ! 0)))
       (corrcoef (snd (rg ! fst compounds) @ snd (rg ! snd compounds)))))"

section \<open>A small dataset\<close>

text \<open>
  Four wells with three features each, indexed 5, 7, 8, 9 (as a dataframe is after rows
  were filtered out of it): one profile of perturbation \<open>a\<close> (mechanism \<open>A\<close>), two
  replicates of \<open>b\<close> (mechanism \<open>B\<close>) and one profile of \<open>c\<close> (mechanism \<open>C\<close>).
\<close>

definition example_df :: dataframe where
  "example_df =
     \<lparr>meta_columns = [''moa'', ''pert''],
      rows =
        [\<lparr>label = 5, meta = [(''moa'', ''A''), (''pert'', ''a'')], features = [Num 0, Num 1, Num 2]\<rparr>,
         \<lparr>label = 7, meta = [(''moa'', ''B''), (''pert'', ''b'')], features = [Num 0, Num 1, Num 2]\<rparr>,
         \<lparr>label = 8, meta = [(''moa'', ''B''), (''pert'', ''b'')], features = [Num 0, Num 1, Num 2]\<rparr>,
         \<lparr>label = 9, meta = [(''moa'', ''C''), (''pert'', ''c'')], features = [Num 2, Num 1, Num 0]\<rparr>]\<rparr>"

text \<open>
  Three wells: mechanism \<open>A\<close> with the two perturbations \<open>a1\<close> and \<open>a2\<close>, mechanism
  \<open>B\<close> with the single perturbation \<open>b\<close>.
\<close>

definition pairs_df :: dataframe where
  "pairs_df =
     \<lparr>meta_columns = [''moa'', ''pert''],
      rows =
        [\<lparr>label = 0, meta = [(''moa'', ''A''), (''pert'', ''a1'')], features = [Num 0, Num 1, Num 2]\<rparr>,
         \<lparr>label = 1, meta = [(''moa'', ''A''), (''pert'', ''a2'')], features = [Num 2, Num 1, Num 0]\<rparr>,
         \<lparr>label = 2, meta = [(''moa'', ''B''), (''pert'', ''b'')], features = [Num 0, Num 1, Num 2]\<rparr>]\<rparr>"

text \<open>
  Two replicate groups of two wells each, the wells of a group with the same profile.
\<close>

definition identical_replicates_df :: dataframe where
  "identical_replicates_df =
     \<lparr>meta_columns = [''compound''],
      rows =
        [\<lparr>label = 0, meta = [(''compound'', ''x'')], features = [Num 1, Num 2]\<rparr>,
         \<lparr>label = 1, meta = [(''compound'', ''y'')], features = [Num 3, Num 5]\<rparr>,
         \<lparr>label = 2, meta = [(''compound'', ''x'')], features = [Num 1, Num 2]\<rparr>,
         \<lparr>label = 3, meta = [(''compound'', ''y'')], features = [Num 3, Num 5]\<rparr>]\<rparr>"

section \<open>Unfolding the loops\<close>

text \<open>
  The loop equations rewrite a call into a term that holds the call again, so they are
  taken out of the simplifier's rules and replaced by one equation per shape of the
  list of draws.
\<close>

declare non_replicates_loop.simps [simp del]
declare non_pairs_loop.simps [simp del]

lemma non_replicates_loop_Nil:
  "non_replicates_loop df n k col [] acc =
     (if int (length acc) < n
      then (if rows df = [] \<and> 0 < k then Some (Inl IndexError) else None)
      else Some (Inr acc))"
  by (subst non_replicates_loop.simps) simp

lemma non_replicates_loop_Cons:
  "non_replicates_loop df n k col (d # rest) acc =
     (if int (length acc) < n then
        (if rows df = [] \<and> 0 < k then Some (Inl IndexError)
         else case loc df d of
           Inl e \<Rightarrow> Some (Inl e)
         | Inr sample \<Rightarrow>
             if col \<notin> set (meta_columns df) then Some (Inl KeyError)
             else if int (length (remdups (map (\<lambda>r. cell r col) sample))) = k
             then (if length sample = 1 then Some (Inl ValueError)
                   else non_replicates_loop df n k col rest (acc @ [sample_correlation sample]))
             else non_replicates_loop df n k col rest acc)
      else Some (Inr acc))"
  by (subst non_replicates_loop.simps)
    (simp add: Let_def sample_correlation_def get_featuredata_def split: sum.splits)

lemma non_pairs_loop_Nil:
  "non_pairs_loop rg n [] acc =
     (if int (length acc) < n then (if rg = [] then Some (Inl IndexError) else None)
      else Some (Inr acc))"
  by (subst non_pairs_loop.simps) simp

lemma non_pairs_loop_Cons:
  "non_pairs_loop rg n (d # rest) acc =
     (if int (length acc) < n then
        (if rg = [] then Some (Inl IndexError)
         else if \<not> (fst d < length rg \<and> snd d < length rg) then Some (Inl IndexError)
         else if fst (fst (rg ! fst d)) \<noteq> fst (fst (rg ! snd d))
         then non_pairs_loop rg n rest (acc @ [null_pair_correlation rg d])
         else non_pairs_loop rg n rest acc)
      else Some (Inr acc))"
  by (subst non_pairs_loop.simps) (simp add: Let_def null_pair_correlation_def)

lemma pairs_loop_Cons:
  "pairs_loop ((name, profiles) # cg) acc =
     (if length profiles > 1
      then pairs_loop cg (acc @ [pair_correlation (profiles ! 0) (profiles ! 1)])
      else pairs_loop cg acc)"
  by (simp add: Let_def pair_correlation_def)

lemmas eval_defs =
  corr_between_perturbation_non_pairs_def corr_between_non_replicates_def
  corr_between_replicates_def corr_between_perturbation_pairs_def common_grouped_def
  reset_index_def enumerate_eq_zip replicate_grouped_def example_df_def pairs_df_def
  identical_replicates_df_def groupby_def cell_def
  List.map_filter_def get_featuredata_def corrcoef_def pearson_def cov_def cross_block_def
  nanmedian_def Let_def fill_diagonal_def loc_def
  non_replicates_loop_Nil non_replicates_loop_Cons non_pairs_loop_Nil non_pairs_loop_Cons
  sample_correlation_def drawn_rows_def pair_correlation_def null_pair_correlation_def

section \<open>ThresholdScorer: an unrecognised mode\<close>

text \<open>
  C9. For every mode string other than \<^verbatim>\<open>'left'\<close>, \<^verbatim>\<open>'right'\<close> and \<^verbatim>\<open>'both'\<close>,
  \<^verbatim>\<open>percent_score\<close> returns Python's \<^verbatim>\<open>None\<close>: no branch is taken, nothing is raised
  and no (fraction, threshold) result is built.
\<close>

theorem percent_score_unrecognised_mode:
  assumes "how \<noteq> ''left''" and "how \<noteq> ''right''" and "how \<noteq> ''both''"
  shows "percent_score null_dist corr_dist how = PyNone"
  using assms by (simp add: percent_score_def)

theorem percent_score_unrecognised_mode_witness:
  "''up'' \<noteq> ''left'' \<and> ''up'' \<noteq> ''right'' \<and> ''up'' \<noteq> ''both'' \<and>
   percent_score [Num 1, NaN, Num 3] [Num 2] ''up'' = PyNone"
  using percent_score_unrecognised_mode [of "''up''" "[Num 1, NaN, Num 3]" "[Num 2]"] by simp

section \<open>What a call does to the caller's dataframe\<close>

lemma reset_index_meta_columns: "meta_columns (reset_index df) = meta_columns df"
  by (simp add: reset_index_def)

lemma length_rows_reset_index: "length (rows (reset_index df)) = length (rows df)"
  by (simp add: reset_index_def)

lemma nth_rows_reset_index:
  "i < length (rows df) \<Longrightarrow> rows (reset_index df) ! i = (rows df ! i)\<lparr>label := int i\<rparr>"
  by (simp add: reset_index_def nth_enumerate_eq)

lemma reset_index_meta: "map meta (rows (reset_index df)) = map meta (rows df)"
  by (rule nth_equalityI) (simp_all add: length_rows_reset_index nth_rows_reset_index)

lemma reset_index_features: "map features (rows (reset_index df)) = map features (rows df)"
  by (rule nth_equalityI) (simp_all add: length_rows_reset_index nth_rows_reset_index)

lemma reset_index_label: "map label (rows (reset_index df)) = map int [0..<length (rows df)]"
  by (rule nth_equalityI) (simp_all add: length_rows_reset_index nth_rows_reset_index)

text \<open>
  C2, as the code has it. \<^verbatim>\<open>corr_between_replicates\<close> and
  \<^verbatim>\<open>corr_between_perturbation_pairs\<close> leave the caller's dataframe as it was. The two
  null samplers, \<^verbatim>\<open>corr_between_non_replicates\<close> and
  \<^verbatim>\<open>corr_between_perturbation_non_pairs\<close>, reset its row index in place: after the
  call the rows are labelled \<open>0, 1, \<dots>\<close>, whatever their labels were; the columns, the
  order of the rows, their metadata cells and their feature values are as before.
\<close>

theorem dataframe_after_call:
  "fst (corr_between_replicates df group_by_feature) = df \<and>
   fst (corr_between_perturbation_pairs df metadata_common metadata_perturbation) = df \<and>
   fst (corr_between_non_replicates df n_samples n_replicates metadata_compound_name draws)
     = reset_index df \<and>
   fst (corr_between_perturbation_non_pairs df n_samples metadata_common metadata_perturbation
          pair_draws) = reset_index df \<and>
   meta_columns (reset_index df) = meta_columns df \<and>
   map meta (rows (reset_index df)) = map meta (rows df) \<and>
   map features (rows (reset_index df)) = map features (rows df) \<and>
   map label (rows (reset_index df)) = map int [0..<length (rows df)]"
  by (simp add: corr_between_replicates_def corr_between_perturbation_pairs_def
      corr_between_non_replicates_def corr_between_perturbation_non_pairs_def Let_def
      reset_index_meta_columns reset_index_meta reset_index_features reset_index_label)

theorem dataframe_after_call_witness:
  "fst (corr_between_replicates example_df ''moa'') = example_df \<and>
   fst (corr_between_non_replicates example_df 1 2 ''moa'' [[0, 1]]) = reset_index example_df \<and>
   map label (rows (reset_index example_df)) = [0, 1, 2, 3] \<and>
   map label (rows example_df) = [5, 7, 8, 9]"
proof -
  have "length (rows example_df) = 4"
    by (simp add: example_df_def)
  moreover have "map int [0..<4] = [0, 1, 2, 3]"
    by (simp add: upt_rec)
  moreover have "map label (rows example_df) = [5, 7, 8, 9]"
    by (simp add: example_df_def)
  ultimately show ?thesis
    using dataframe_after_call [of example_df "''moa''" "''moa''" "''pert''" 1 2 "''moa''" "[[0, 1]]" "[]"]
    by simp
qed

text \<open>
  The claim as the spec words it (every core function leaves \<open>df\<close>, row index
  included, as it was) fails for a dataframe whose index is not already \<open>0, 1, \<dots>\<close>:
  both null samplers hand back \<open>example_df\<close> relabelled.
\<close>

theorem null_samplers_change_index:
  "fst (corr_between_non_replicates example_df 1 2 ''moa'' [[0, 1]]) \<noteq> example_df \<and>
   fst (corr_between_perturbation_non_pairs example_df 1 ''moa'' ''pert'' [(0, 1)]) \<noteq> example_df"
  by (simp add: corr_between_non_replicates_def corr_between_perturbation_non_pairs_def Let_def
      reset_index_def enumerate_eq_zip example_df_def)

section \<open>Grouping\<close>

lemma set_map_filter: "set (List.map_filter key rs) = {k. \<exists>r \<in> set rs. key r = Some k}"
  by (force simp: List.map_filter_def image_iff)

lemma groupby_keys: "map fst (groupby key rs) = sort (remdups (List.map_filter key rs))"
  by (simp add: groupby_def comp_def)

lemma distinct_groupby_keys: "distinct (map fst (groupby key rs))"
  by (simp add: groupby_keys)

lemma set_groupby:
  "set (groupby key rs) =
     {(k, g). (\<exists>r \<in> set rs. key r = Some k) \<and> g = filter (\<lambda>r. key r = Some k) rs}"
  by (auto simp: groupby_def set_map_filter)

section \<open>ReplicateCorrelator: groups of one row\<close>

lemma replicates_loop_eq:
  "replicates_loop gs acc =
     acc @ map (\<lambda>(name, grp). (name, if length grp = 1 then NaN else sample_correlation grp)) gs"
  by (induction gs arbitrary: acc) (auto simp: Let_def get_featuredata_def sample_correlation_def)

text \<open>
  C7. For every dataset and replicate key (a metadata column of it), a group that
  contains exactly one row is in the frame \<^verbatim>\<open>corr_between_replicates\<close> returns,
  paired with its key value, and its correlation is NaN (and nothing else).
\<close>

theorem single_row_group_is_nan:
  assumes "group_by_feature \<in> set (meta_columns df)"
    and "length (filter (\<lambda>r. cell r group_by_feature = Some k) (rows df)) = 1"
  shows "\<exists>out. corr_between_replicates df group_by_feature = (df, Inr out) \<and>
           (k, NaN) \<in> set out \<and> (\<forall>v. (k, v) \<in> set out \<longrightarrow> v = NaN)"
proof -
  let ?key = "\<lambda>r. cell r group_by_feature"
  let ?g = "filter (\<lambda>r. ?key r = Some k) (rows df)"
  let ?entry = "\<lambda>(name, grp). (name, if length grp = 1 then NaN else sample_correlation grp)"
  let ?out = "map ?entry (groupby ?key (rows df))"
  from assms(2) have "?g \<noteq> []" by auto
  then obtain r where "r \<in> set (rows df)" and "?key r = Some k"
    by (auto simp: filter_empty_conv)
  then have mem: "(k, ?g) \<in> set (groupby ?key (rows df))"
    by (auto simp: set_groupby)
  have ret: "corr_between_replicates df group_by_feature = (df, Inr ?out)"
    using assms(1) by (simp add: corr_between_replicates_def replicates_loop_eq)
  from mem have "?entry (k, ?g) \<in> set ?out"
    by (metis (no_types, lifting) image_eqI set_map)
  with assms(2) have in_out: "(k, NaN) \<in> set ?out" by simp
  have "v = NaN" if "(k, v) \<in> set ?out" for v
  proof -
    from that obtain k' g' where "(k', g') \<in> set (groupby ?key (rows df))"
      and "(k, v) = ?entry (k', g')" by auto
    then have "g' = ?g" and "v = (if length g' = 1 then NaN else sample_correlation g')"
      by (auto simp: set_groupby)
    with assms(2) show ?thesis by simp
  qed
  with ret in_out show ?thesis by blast
qed


theorem single_row_group_is_nan_witness:
  "''moa'' \<in> set (meta_columns example_df) \<and>
   length (filter (\<lambda>r. cell r ''moa'' = Some ''A'') (rows example_df)) = 1 \<and>
   snd (corr_between_replicates example_df ''moa'')
     = Inr [(''A'', NaN), (''B'', Num 1), (''C'', NaN)] \<and>
   (\<exists>out. corr_between_replicates example_df ''moa'' = (example_df, Inr out) \<and>
      (''A'', NaN) \<in> set out \<and> (\<forall>v. (''A'', v) \<in> set out \<longrightarrow> v = NaN))"
proof -
  have col: "''moa'' \<in> set (meta_columns example_df)"
    by (simp add: example_df_def)
  have one: "length (filter (\<lambda>r. cell r ''moa'' = Some ''A'') (rows example_df)) = 1"
    by (simp add: example_df_def cell_def)
  have "snd (corr_between_replicates example_df ''moa'')
     = Inr [(''A'', NaN), (''B'', Num 1), (''C'', NaN)]"
    by (simp add: eval_defs)
  with col one single_row_group_is_nan [OF col one] show ?thesis by blast
qed

section \<open>NullReplicateSampler: what the loop returns\<close>

lemma non_replicates_loop_returns:
  assumes "non_replicates_loop df n k col draws acc = Some (Inr out)"
  shows "\<exists>ds vs. subseq ds draws \<and> out = acc @ vs \<and>
           list_all2 (\<lambda>d v. \<exists>sample. loc df d = Inr sample \<and>
               int (length (remdups (map (\<lambda>r. cell r col) sample))) = k \<and>
               v = sample_correlation sample) ds vs \<and>
           int (length out) = max n (int (length acc))"
  using assms
proof (induction draws arbitrary: acc)
  case Nil
  then have "out = acc" and "\<not> int (length acc) < n"
    by (auto simp: non_replicates_loop_Nil split: if_splits)
  then show ?case by auto
next
  case (Cons d rest)
  show ?case
  proof (cases "int (length acc) < n")
    case False
    with Cons.prems have "out = acc" by (simp add: non_replicates_loop_Cons)
    with False show ?thesis by auto
  next
    case True
    with Cons.prems obtain sample where s: "loc df d = Inr sample"
      by (auto simp: non_replicates_loop_Cons split: if_splits sum.splits)
    show ?thesis
    proof (cases "int (length (remdups (map (\<lambda>r. cell r col) sample))) = k")
      case False
      with Cons.prems True s have "non_replicates_loop df n k col rest acc = Some (Inr out)"
        by (auto simp: non_replicates_loop_Cons split: if_splits)
      from Cons.IH [OF this] obtain ds vs where "subseq ds rest" "out = acc @ vs"
        "list_all2 (\<lambda>d v. \<exists>sample. loc df d = Inr sample \<and>
               int (length (remdups (map (\<lambda>r. cell r col) sample))) = k \<and>
               v = sample_correlation sample) ds vs"
        "int (length out) = max n (int (length acc))" by blast
      then show ?thesis by (intro exI [of _ ds] exI [of _ vs]) auto
    next
      case acc: True
      with Cons.prems True s
      have "non_replicates_loop df n k col rest (acc @ [sample_correlation sample]) = Some (Inr out)"
        by (auto simp: non_replicates_loop_Cons split: if_splits)
      from Cons.IH [OF this] obtain ds vs where *: "subseq ds rest"
        "out = (acc @ [sample_correlation sample]) @ vs"
        "list_all2 (\<lambda>d v. \<exists>sample. loc df d = Inr sample \<and>
               int (length (remdups (map (\<lambda>r. cell r col) sample))) = k \<and>
               v = sample_correlation sample) ds vs"
        "int (length out) = max n (int (length (acc @ [sample_correlation sample])))" by blast
      from True *(4) have "int (length out) = max n (int (length acc))" by simp
      with * s acc show ?thesis
        by (intro exI [of _ "d # ds"] exI [of _ "sample_correlation sample # vs"]) auto
    qed
  qed
qed


lemma filter_label_position:
  assumes "map label xs = map int [0..<length xs]" and "l < length xs"
  shows "filter (\<lambda>r. label r = int l) xs = [xs ! l]"
  using assms
proof (induction xs rule: rev_induct)
  case Nil
  then show ?case by simp
next
  case (snoc x xs)
  from snoc.prems(1) have labels: "map label xs = map int [0..<length xs]"
    and last: "label x = int (length xs)" by simp_all
  show ?case
  proof (cases "l < length xs")
    case True
    with snoc.IH labels last show ?thesis by (simp add: nth_append)
  next
    case False
    with snoc.prems(2) have l: "l = length xs" by simp
    have "label r \<noteq> int (length xs)" if "r \<in> set xs" for r
    proof -
      from that have "label r \<in> set (map label xs)" by simp
      with labels have "label r \<in> set (map int [0..<length xs])" by simp
      then show ?thesis by auto
    qed
    then have "filter (\<lambda>r. label r = int (length xs)) xs = []"
      by (simp add: filter_empty_conv)
    with l last show ?thesis by simp
  qed
qed

lemma loc_reset_index:
  assumes "loc (reset_index df) compounds = Inr sample"
  shows "(\<forall>i \<in> set compounds. i < length (rows df)) \<and>
         sample = drawn_rows (reset_index df) compounds"
proof -
  let ?df = "reset_index df"
  have labels: "map label (rows ?df) = map int [0..<length (rows ?df)]"
    by (simp add: reset_index_label length_rows_reset_index)
  from assms have mem: "\<forall>l \<in> set compounds. int l \<in> set (map label (rows ?df))"
    and sample: "sample = concat (map (\<lambda>l. filter (\<lambda>r. label r = int l) (rows ?df)) compounds)"
    by (auto simp: loc_def split: if_splits)
  from mem have range: "\<forall>i \<in> set compounds. i < length (rows df)"
    by (auto simp: reset_index_label)
  have "concat (map (\<lambda>l. filter (\<lambda>r. label r = int l) (rows ?df)) ls) = map (\<lambda>i. rows ?df ! i) ls"
    if "\<forall>i \<in> set ls. i < length (rows df)" for ls
    using that
    by (induction ls) (simp_all add: filter_label_position [OF labels] length_rows_reset_index)
  with range sample show ?thesis by (simp add: drawn_rows_def)
qed

lemma drawn_rows_reset_index_cells:
  assumes "\<forall>i \<in> set compounds. i < length (rows df)"
  shows "map (\<lambda>r. cell r col) (drawn_rows (reset_index df) compounds)
       = map (\<lambda>r. cell r col) (drawn_rows df compounds)"
  using assms by (simp add: drawn_rows_def nth_rows_reset_index cell_def)

lemma drawn_rows_reset_index_features:
  assumes "\<forall>i \<in> set compounds. i < length (rows df)"
  shows "get_featuredata (drawn_rows (reset_index df) compounds)
       = get_featuredata (drawn_rows df compounds)"
  using assms by (simp add: drawn_rows_def nth_rows_reset_index get_featuredata_def)

text \<open>
  C4. Whenever \<^verbatim>\<open>corr_between_non_replicates\<close> returns, the returned values are, in
  order, the correlations of some of the draws (a subsequence of them: the accepted
  ones), and the rows of every such draw carry exactly \<open>n_replicates\<close> distinct values
  in the group column. A draw whose rows collapse to fewer distinct values leaves no
  value in the output.
\<close>

theorem non_replicates_emits_distinct_groups_only:
  assumes "snd (corr_between_non_replicates df n_samples n_replicates metadata_compound_name draws)
             = Some (Inr null_corr)"
  shows "\<exists>accepted. subseq accepted draws \<and>
           null_corr = map (\<lambda>compounds. sample_correlation (drawn_rows df compounds)) accepted \<and>
           (\<forall>compounds \<in> set accepted.
              (\<forall>i \<in> set compounds. i < length (rows df)) \<and>
              int (card ((\<lambda>r. cell r metadata_compound_name) ` set (drawn_rows df compounds)))
                = n_replicates)"
proof -
  let ?df = "reset_index df"
  let ?R = "\<lambda>d v. \<exists>sample. loc ?df d = Inr sample \<and>
               int (length (remdups (map (\<lambda>r. cell r metadata_compound_name) sample))) = n_replicates \<and>
               v = sample_correlation sample"
  from assms have "non_replicates_loop ?df n_samples n_replicates metadata_compound_name draws []
      = Some (Inr null_corr)"
    by (simp add: corr_between_non_replicates_def Let_def)
  from non_replicates_loop_returns [OF this]
  obtain ds where sub: "subseq ds draws" and rel: "list_all2 ?R ds null_corr"
    by auto
  have each: "(\<forall>i \<in> set d. i < length (rows df)) \<and>
        int (card ((\<lambda>r. cell r metadata_compound_name) ` set (drawn_rows df d))) = n_replicates \<and>
        v = sample_correlation (drawn_rows df d)" if "?R d v" for d v
  proof -
    from that obtain sample where s: "loc ?df d = Inr sample"
      and n: "int (length (remdups (map (\<lambda>r. cell r metadata_compound_name) sample))) = n_replicates"
      and v: "v = sample_correlation sample" by blast
    from loc_reset_index [OF s] have range: "\<forall>i \<in> set d. i < length (rows df)"
      and sample: "sample = drawn_rows ?df d" by simp_all
    from n sample have "int (card (set (map (\<lambda>r. cell r metadata_compound_name) (drawn_rows df d))))
        = n_replicates"
      by (simp only: length_remdups_card_conv drawn_rows_reset_index_cells [OF range])
    moreover from v sample have "v = sample_correlation (drawn_rows df d)"
      by (simp add: sample_correlation_def drawn_rows_reset_index_features [OF range])
    ultimately show ?thesis using range by simp
  qed
  let ?R' = "\<lambda>d v. ((\<forall>i \<in> set d. i < length (rows df)) \<and>
        int (card ((\<lambda>r. cell r metadata_compound_name) ` set (drawn_rows df d))) = n_replicates) \<and>
        v = sample_correlation (drawn_rows df d)"
  from rel have rel': "list_all2 ?R' ds null_corr"
    by (rule list_all2_mono) (use each in blast)
  then have "null_corr = map (\<lambda>d. sample_correlation (drawn_rows df d)) ds"
    by (induction rule: list_all2_induct) simp_all
  moreover from rel' have "\<forall>d \<in> set ds. (\<forall>i \<in> set d. i < length (rows df)) \<and>
      int (card ((\<lambda>r. cell r metadata_compound_name) ` set (drawn_rows df d))) = n_replicates"
    by (induction rule: list_all2_induct) simp_all
  ultimately show ?thesis using sub by blast
qed


theorem non_replicates_emits_distinct_groups_only_witness:
  "snd (corr_between_non_replicates example_df 2 2 ''moa'' [[0, 1], [1, 2], [1, 3]])
     = Some (Inr [Num 1, Num (- 1)]) \<and>
   (\<exists>accepted. subseq accepted [[0, 1], [1, 2], [1, 3]] \<and>
      [Num 1, Num (- 1)]
        = map (\<lambda>compounds. sample_correlation (drawn_rows example_df compounds)) accepted \<and>
      (\<forall>compounds \<in> set accepted.
         (\<forall>i \<in> set compounds. i < length (rows example_df)) \<and>
         int (card ((\<lambda>r. cell r ''moa'') ` set (drawn_rows example_df compounds))) = 2))"
proof -
  have ret: "snd (corr_between_non_replicates example_df 2 2 ''moa'' [[0, 1], [1, 2], [1, 3]])
     = Some (Inr [Num 1, Num (- 1)])"
    by (simp add: eval_defs)
  from non_replicates_emits_distinct_groups_only [OF ret] ret show ?thesis by blast
qed

section \<open>NullPairSampler: what the loop returns\<close>

lemma non_pairs_loop_returns:
  assumes "non_pairs_loop rg n draws acc = Some (Inr out)"
  shows "\<exists>ds. subseq ds draws \<and> out = acc @ map (null_pair_correlation rg) ds \<and>
           (\<forall>d \<in> set ds. fst d < length rg \<and> snd d < length rg \<and>
              fst (fst (rg ! fst d)) \<noteq> fst (fst (rg ! snd d))) \<and>
           int (length out) = max n (int (length acc))"
  using assms
proof (induction draws arbitrary: acc)
  case Nil
  then have "out = acc" and "\<not> int (length acc) < n"
    by (auto simp: non_pairs_loop_Nil split: if_splits)
  then show ?case by auto
next
  case (Cons d rest)
  show ?case
  proof (cases "int (length acc) < n")
    case False
    with Cons.prems have "out = acc" by (simp add: non_pairs_loop_Cons)
    with False show ?thesis by auto
  next
    case True
    with Cons.prems have range: "fst d < length rg \<and> snd d < length rg" and "rg \<noteq> []"
      by (auto simp: non_pairs_loop_Cons split: if_splits)
    show ?thesis
    proof (cases "fst (fst (rg ! fst d)) \<noteq> fst (fst (rg ! snd d))")
      case False
      with Cons.prems True range \<open>rg \<noteq> []\<close> have "non_pairs_loop rg n rest acc = Some (Inr out)"
        by (simp add: non_pairs_loop_Cons)
      from Cons.IH [OF this] obtain ds where "subseq ds rest"
        "out = acc @ map (null_pair_correlation rg) ds"
        "\<forall>d \<in> set ds. fst d < length rg \<and> snd d < length rg \<and>
              fst (fst (rg ! fst d)) \<noteq> fst (fst (rg ! snd d))"
        "int (length out) = max n (int (length acc))" by blast
      then show ?thesis by (intro exI [of _ ds]) auto
    next
      case differ: True
      with Cons.prems True range \<open>rg \<noteq> []\<close>
      have "non_pairs_loop rg n rest (acc @ [null_pair_correlation rg d]) = Some (Inr out)"
        by (simp add: non_pairs_loop_Cons)
      from Cons.IH [OF this] obtain ds where *: "subseq ds rest"
        "out = (acc @ [null_pair_correlation rg d]) @ map (null_pair_correlation rg) ds"
        "\<forall>d \<in> set ds. fst d < length rg \<and> snd d < length rg \<and>
              fst (fst (rg ! fst d)) \<noteq> fst (fst (rg ! snd d))"
        "int (length out) = max n (int (length (acc @ [null_pair_correlation rg d])))" by blast
      from True *(4) have "int (length out) = max n (int (length acc))" by simp
      with * range differ show ?thesis
        by (intro exI [of _ "d # ds"]) auto
    qed
  qed
qed

lemma map_filter_key_meta:
  "List.map_filter (\<lambda>r. kf (meta r)) rs = List.map_filter (\<lambda>p. kf (fst p)) (map (\<lambda>r. (meta r, features r)) rs)"
  by (induction rs) (simp_all add: List.map_filter_def)

lemma features_filter_key_meta:
  "map features (filter (\<lambda>r. kf (meta r) = k) rs)
     = map snd (filter (\<lambda>p. kf (fst p) = k) (map (\<lambda>r. (meta r, features r)) rs))"
  by (induction rs) simp_all

lemma reset_index_meta_features:
  "map (\<lambda>r. (meta r, features r)) (rows (reset_index df)) = map (\<lambda>r. (meta r, features r)) (rows df)"
  by (rule nth_equalityI) (simp_all add: length_rows_reset_index nth_rows_reset_index)

lemma grouped_features_proj:
  "map (\<lambda>(k, g). (k, map features g)) (groupby (\<lambda>r. kf (meta r)) rs)
     = map (\<lambda>(k, g). (k, map snd g))
         (groupby (\<lambda>q. kf (fst q)) (map (\<lambda>r. (meta r, features r)) rs))"
  unfolding groupby_def
  by (simp add: map_filter_key_meta [of kf] features_filter_key_meta [of kf])

lemma replicate_grouped_reset_index:
  "replicate_grouped (reset_index df) c p = replicate_grouped df c p"
proof -
  let ?kf = "\<lambda>m. case (map_of m c, map_of m p) of (Some a, Some b) \<Rightarrow> Some (a, b) | _ \<Rightarrow> None"
  have "replicate_grouped d c p =
      map (\<lambda>(k, g). (k, map snd g))
         (groupby (\<lambda>q. ?kf (fst q)) (map (\<lambda>r. (meta r, features r)) (rows d)))" for d
    unfolding replicate_grouped_def cell_def get_featuredata_def
    by (rule grouped_features_proj [of ?kf])
  then show ?thesis by (simp only: reset_index_meta_features)
qed

text \<open>
  C5. Whenever \<^verbatim>\<open>corr_between_perturbation_non_pairs\<close> returns, the returned values
  are, in order, the values computed for some of the draws (a subsequence of them: the
  accepted ones), and every such draw names two rows of the (common key, perturbation
  key) table whose common key values differ. A draw of two groups with the same common
  key leaves no value in the output.
\<close>

theorem non_pairs_emits_different_common_keys_only:
  assumes "snd (corr_between_perturbation_non_pairs df n_samples metadata_common
                  metadata_perturbation draws) = Some (Inr null_corr)"
  shows "\<exists>accepted. subseq accepted draws \<and>
           null_corr = map (null_pair_correlation
                              (replicate_grouped df metadata_common metadata_perturbation)) accepted \<and>
           (\<forall>compounds \<in> set accepted.
              fst compounds < length (replicate_grouped df metadata_common metadata_perturbation) \<and>
              snd compounds < length (replicate_grouped df metadata_common metadata_perturbation) \<and>
              fst (fst (replicate_grouped df metadata_common metadata_perturbation ! fst compounds))
                \<noteq> fst (fst (replicate_grouped df metadata_common metadata_perturbation ! snd compounds)))"
proof -
  let ?rg = "replicate_grouped df metadata_common metadata_perturbation"
  from assms have "non_pairs_loop ?rg n_samples draws [] = Some (Inr null_corr)"
    by (simp add: corr_between_perturbation_non_pairs_def Let_def replicate_grouped_reset_index
        split: if_splits)
  from non_pairs_loop_returns [OF this] show ?thesis by auto
qed

theorem non_pairs_emits_different_common_keys_only_witness:
  "snd (corr_between_perturbation_non_pairs example_df 1 ''moa'' ''pert'' [(0, 0), (0, 2)])
     = Some (Inr [Num (- 1)]) \<and>
   (\<exists>accepted. subseq accepted [(0, 0), (0, 2)] \<and>
      [Num (- 1)]
        = map (null_pair_correlation (replicate_grouped example_df ''moa'' ''pert'')) accepted \<and>
      (\<forall>compounds \<in> set accepted.
         fst compounds < length (replicate_grouped example_df ''moa'' ''pert'') \<and>
         snd compounds < length (replicate_grouped example_df ''moa'' ''pert'') \<and>
         fst (fst (replicate_grouped example_df ''moa'' ''pert'' ! fst compounds))
           \<noteq> fst (fst (replicate_grouped example_df ''moa'' ''pert'' ! snd compounds))))"
proof -
  have ret: "snd (corr_between_perturbation_non_pairs example_df 1 ''moa'' ''pert'' [(0, 0), (0, 2)])
     = Some (Inr [Num (- 1)])"
    by (simp add: eval_defs)
  from non_pairs_emits_different_common_keys_only [OF ret] ret show ?thesis by blast
qed

section \<open>The null samplers: the length of the result\<close>

text \<open>
  C6. For \<open>n_samples \<ge> 0\<close>, a list that \<^verbatim>\<open>corr_between_non_replicates\<close> or
  \<^verbatim>\<open>corr_between_perturbation_non_pairs\<close> returns has exactly \<open>n_samples\<close> entries.
\<close>

theorem null_samplers_return_n_samples:
  assumes "0 \<le> n_samples"
    and "snd (corr_between_non_replicates df n_samples n_replicates metadata_compound_name draws)
           = Some (Inr null_corr)
         \<or> snd (corr_between_perturbation_non_pairs df n_samples metadata_common
                  metadata_perturbation pair_draws) = Some (Inr null_corr)"
  shows "int (length null_corr) = n_samples"
  using assms(2)
proof
  assume "snd (corr_between_non_replicates df n_samples n_replicates metadata_compound_name draws)
           = Some (Inr null_corr)"
  then have "non_replicates_loop (reset_index df) n_samples n_replicates metadata_compound_name
      draws [] = Some (Inr null_corr)"
    by (simp add: corr_between_non_replicates_def Let_def)
  from non_replicates_loop_returns [OF this] assms(1) show ?thesis by auto
next
  assume "snd (corr_between_perturbation_non_pairs df n_samples metadata_common
                  metadata_perturbation pair_draws) = Some (Inr null_corr)"
  then have "non_pairs_loop (replicate_grouped (reset_index df) metadata_common metadata_perturbation)
      n_samples pair_draws [] = Some (Inr null_corr)"
    by (simp add: corr_between_perturbation_non_pairs_def Let_def split: if_splits)
  from non_pairs_loop_returns [OF this] assms(1) show ?thesis by auto
qed

theorem null_samplers_return_n_samples_witness:
  "snd (corr_between_non_replicates example_df 2 2 ''moa'' [[0, 1], [1, 2], [1, 3]])
     = Some (Inr [Num 1, Num (- 1)]) \<and>
   snd (corr_between_perturbation_non_pairs example_df 1 ''moa'' ''pert'' [(0, 0), (0, 2)])
     = Some (Inr [Num (- 1)]) \<and>
   int (length [Num 1, Num (- 1)]) = 2 \<and> int (length [Num (- 1)]) = 1"
proof -
  have r1: "snd (corr_between_non_replicates example_df 2 2 ''moa'' [[0, 1], [1, 2], [1, 3]])
     = Some (Inr [Num 1, Num (- 1)])"
    by (simp add: eval_defs)
  have r2: "snd (corr_between_perturbation_non_pairs example_df 1 ''moa'' ''pert'' [(0, 0), (0, 2)])
     = Some (Inr [Num (- 1)])"
    by (simp add: eval_defs)
  have "int (length [Num 1, Num (- 1)]) = 2"
    by (rule null_samplers_return_n_samples [of 2, OF _ disjI1, OF _ r1]) simp
  moreover have "int (length [Num (- 1)]) = 1"
    by (rule null_samplers_return_n_samples [of 1, OF _ disjI2, OF _ r2]) simp
  ultimately show ?thesis using r1 r2 by blast
qed

section \<open>NullPairSampler: the block that is cut out\<close>

text \<open>
  Line 185 cuts the joint correlation matrix at the number of profiles of the table's
  row 0. Where the first drawn group has as many profiles as that row, this is the
  block that \<^verbatim>\<open>corr_between_perturbation_pairs\<close> cuts out.
\<close>

lemma null_pair_correlation_same_length:
  assumes "length (snd (rg ! fst compounds)) = length (snd (rg ! 0))"
  shows "null_pair_correlation rg compounds
           = pair_correlation (snd (rg ! fst compounds)) (snd (rg ! snd compounds))"
  using assms by (simp add: null_pair_correlation_def pair_correlation_def)

text \<open>
  C1, at an input where it fails. In \<open>example_df\<close> the table's row 0 holds one profile,
  row 1 two and row 2 one. For the accepted draw \<open>(1, 2)\<close> the median of the block
  whose rows are the first drawn group's profiles and whose columns are the second's is
  \<open>-1\<close>; the function appends \<open>0\<close>, the median of the first row of the matrix
  without its first entry, which mixes the correlation between the two replicates of the
  first group with one cross-correlation.
\<close>

theorem non_pairs_slice_at_first_table_row:
  "replicate_grouped example_df ''moa'' ''pert'' =
     [((''A'', ''a''), [[Num 0, Num 1, Num 2]]),
      ((''B'', ''b''), [[Num 0, Num 1, Num 2], [Num 0, Num 1, Num 2]]),
      ((''C'', ''c''), [[Num 2, Num 1, Num 0]])] \<and>
   snd (corr_between_perturbation_non_pairs example_df 1 ''moa'' ''pert'' [(1, 2)])
     = Some (Inr [Num 0]) \<and>
   pair_correlation [[Num 0, Num 1, Num 2], [Num 0, Num 1, Num 2]] [[Num 2, Num 1, Num 0]]
     = Num (- 1)"
  by (simp add: eval_defs)

text \<open>So the value appended for this draw is not the one the claim names.\<close>

theorem non_pairs_slice_at_first_table_row_witness:
  "snd (corr_between_perturbation_non_pairs example_df 1 ''moa'' ''pert'' [(1, 2)])
     \<noteq> Some (Inr [pair_correlation
                      (snd (replicate_grouped example_df ''moa'' ''pert'' ! 1))
                      (snd (replicate_grouped example_df ''moa'' ''pert'' ! 2))])"
  using non_pairs_slice_at_first_table_row by simp

section \<open>PairCorrelator: the length of the result\<close>

lemma pairs_loop_length:
  "length (pairs_loop cg acc) = length acc + length (filter (\<lambda>(k, ps). 1 < length ps) cg)"
  by (induction cg arbitrary: acc) (auto simp: Let_def)

lemma length_filter_distinct_keys:
  assumes "distinct (map fst xs)"
  shows "length (filter (\<lambda>t. f (fst t) = k) xs) = card {q \<in> fst ` set xs. f q = k}"
proof -
  have "length (filter (\<lambda>t. f (fst t) = k) xs) = length (filter (\<lambda>q. f q = k) (map fst xs))"
    by (simp add: filter_map comp_def)
  also have "\<dots> = card ({q. f q = k} \<inter> set (map fst xs))"
    using assms by (rule distinct_length_filter)
  also have "{q. f q = k} \<inter> set (map fst xs) = {q \<in> fst ` set xs. f q = k}"
    by auto
  finally show ?thesis .
qed

lemma card_second_components:
  "card {q \<in> K. fst q = k} = card {b. (k, b) \<in> K}"
proof -
  have "{q \<in> K. fst q = k} = Pair k ` {b. (k, b) \<in> K}"
    by auto
  moreover have "inj_on (Pair k) {b. (k, b) \<in> K}"
    by (simp add: inj_on_def)
  ultimately show ?thesis by (simp add: card_image)
qed

lemma replicate_grouped_keys:
  "fst ` set (replicate_grouped df c p)
     = {(a, b). \<exists>r \<in> set (rows df). cell r c = Some a \<and> cell r p = Some b}"
proof -
  let ?key = "\<lambda>r. case (cell r c, cell r p) of (Some a, Some b) \<Rightarrow> Some (a, b) | _ \<Rightarrow> None"
  have "fst ` set (replicate_grouped df c p) = set (map fst (groupby ?key (rows df)))"
    by (force simp: replicate_grouped_def)
  also have "\<dots> = {k. \<exists>r \<in> set (rows df). ?key r = Some k}"
    by (simp add: groupby_keys set_map_filter)
  also have "\<dots> = {(a, b). \<exists>r \<in> set (rows df). cell r c = Some a \<and> cell r p = Some b}"
    by (auto split: option.splits)
  finally show ?thesis .
qed

lemma distinct_replicate_grouped_keys: "distinct (map fst (replicate_grouped df c p))"
proof -
  have "map fst (replicate_grouped df c p)
      = map fst (groupby (\<lambda>r. case (cell r c, cell r p) of (Some a, Some b) \<Rightarrow> Some (a, b) | _ \<Rightarrow> None) (rows df))"
    by (simp add: replicate_grouped_def comp_def case_prod_unfold)
  then show ?thesis by (simp only: distinct_groupby_keys)
qed

lemma common_grouped_pairs:
  assumes "distinct (map fst rg)"
  shows "length (filter (\<lambda>(k, ps). 1 < length ps) (common_grouped rg))
           = card {k. 2 \<le> card {b. (k, b) \<in> fst ` set rg}}"
proof -
  let ?K = "fst ` set rg"
  let ?ks = "sort (remdups (List.map_filter (\<lambda>t. Some (fst (fst t))) rg))"
  let ?G = "\<lambda>k. filter (\<lambda>t. fst (fst t) = k) rg"
  have len: "length (?G k) = card {b. (k, b) \<in> ?K}" for k
    using length_filter_distinct_keys [OF assms, of fst k] by (simp add: card_second_components)
  have "length (filter (\<lambda>(k, ps). 1 < length ps) (common_grouped rg))
      = length (filter (\<lambda>k. 1 < length (?G k)) ?ks)"
    by (simp add: common_grouped_def groupby_def filter_map comp_def)
  also have "\<dots> = card ({k. 1 < length (?G k)} \<inter> set ?ks)"
    by (rule distinct_length_filter) simp
  also have "{k. 1 < length (?G k)} \<inter> set ?ks = {k. 2 \<le> card {b. (k, b) \<in> ?K}}"
  proof -
    have "k \<in> set ?ks" if "2 \<le> card {b. (k, b) \<in> ?K}" for k
    proof -
      from that have "card {b. (k, b) \<in> ?K} \<noteq> 0" by simp
      then have "{b. (k, b) \<in> ?K} \<noteq> {}" by (metis card.empty)
      then obtain b where "(k, b) \<in> ?K" by auto
      then show ?thesis by (force simp: set_map_filter)
    qed
    then show ?thesis by (auto simp: len)
  qed
  finally show ?thesis .
qed

text \<open>
  C8. For every dataset with the two key columns, \<^verbatim>\<open>corr_between_perturbation_pairs\<close>
  returns a list with one entry per common key value that occurs with two or more
  perturbation key values; a common key group with exactly one perturbation adds no
  entry.
\<close>

theorem pairs_counts_groups_with_two_perturbations:
  assumes "metadata_common \<in> set (meta_columns df)"
    and "metadata_perturbation \<in> set (meta_columns df)"
  shows "\<exists>replicate_corr.
           corr_between_perturbation_pairs df metadata_common metadata_perturbation
             = (df, Inr replicate_corr) \<and>
           length replicate_corr =
             card {k. 2 \<le> card {b. \<exists>r \<in> set (rows df).
                      cell r metadata_common = Some k \<and> cell r metadata_perturbation = Some b}}"
proof -
  let ?rg = "replicate_grouped df metadata_common metadata_perturbation"
  have "length (pairs_loop (common_grouped ?rg) [])
      = length (filter (\<lambda>(k, ps). 1 < length ps) (common_grouped ?rg))"
    by (simp add: pairs_loop_length)
  also have "\<dots> = card {k. 2 \<le> card {b. (k, b) \<in> fst ` set ?rg}}"
    by (rule common_grouped_pairs [OF distinct_replicate_grouped_keys])
  also have "\<dots> = card {k. 2 \<le> card {b. \<exists>r \<in> set (rows df).
                      cell r metadata_common = Some k \<and> cell r metadata_perturbation = Some b}}"
    by (simp add: replicate_grouped_keys)
  finally show ?thesis using assms by (simp add: corr_between_perturbation_pairs_def)
qed

theorem pairs_counts_groups_with_two_perturbations_witness:
  "''moa'' \<in> set (meta_columns pairs_df) \<and> ''pert'' \<in> set (meta_columns pairs_df) \<and>
   corr_between_perturbation_pairs pairs_df ''moa'' ''pert'' = (pairs_df, Inr [Num (- 1)]) \<and>
   card {k. 2 \<le> card {b. \<exists>r \<in> set (rows pairs_df).
           cell r ''moa'' = Some k \<and> cell r ''pert'' = Some b}} = 1"
proof -
  have c: "''moa'' \<in> set (meta_columns pairs_df)" and p: "''pert'' \<in> set (meta_columns pairs_df)"
    by (simp_all add: pairs_df_def)
  have ret: "corr_between_perturbation_pairs pairs_df ''moa'' ''pert'' = (pairs_df, Inr [Num (- 1)])"
    by (simp add: eval_defs)
  from pairs_counts_groups_with_two_perturbations [OF c p] ret
  have "card {k. 2 \<le> card {b. \<exists>r \<in> set (rows pairs_df).
           cell r ''moa'' = Some k \<and> cell r ''pert'' = Some b}} = 1"
    by auto
  with c p ret show ?thesis by blast
qed

section \<open>ThresholdScorer: the right mode\<close>









section \<open>ThresholdScorer: the two thresholds of the both mode\<close>









section \<open>The null samplers return once enough draws are accepted\<close>

text \<open>
  The loops have no bound of their own: they run until \<open>n_samples\<close> draws were
  accepted. With draws that \<^verbatim>\<open>random.choices\<close> can return (positions in range), they
  return as soon as the draws hold \<open>n_samples\<close> accepted ones.
\<close>

lemma non_pairs_loop_enough_draws:
  assumes "rg \<noteq> []"
    and "\<forall>d \<in> set draws. fst d < length rg \<and> snd d < length rg"
    and "n \<le> int (length acc)
           + int (length (filter (\<lambda>d. fst (fst (rg ! fst d)) \<noteq> fst (fst (rg ! snd d))) draws))"
  shows "\<exists>out. non_pairs_loop rg n draws acc = Some (Inr out)"
  using assms(2,3)
proof (induction draws arbitrary: acc)
  case Nil
  then show ?case by (simp add: non_pairs_loop_Nil)
next
  case (Cons d rest)
  show ?case
  proof (cases "int (length acc) < n")
    case False
    then show ?thesis by (simp add: non_pairs_loop_Cons)
  next
    case True
    from Cons.prems(1) have range: "fst d < length rg \<and> snd d < length rg"
      and rest: "\<forall>d \<in> set rest. fst d < length rg \<and> snd d < length rg" by simp_all
    show ?thesis
    proof (cases "fst (fst (rg ! fst d)) \<noteq> fst (fst (rg ! snd d))")
      case differ: True
      with Cons.prems(2) have "n \<le> int (length (acc @ [null_pair_correlation rg d]))
           + int (length (filter (\<lambda>d. fst (fst (rg ! fst d)) \<noteq> fst (fst (rg ! snd d))) rest))"
        by simp
      from Cons.IH [OF rest this] True range differ assms(1) show ?thesis
        by (simp add: non_pairs_loop_Cons)
    next
      case False
      with Cons.prems(2) have "n \<le> int (length acc)
           + int (length (filter (\<lambda>d. fst (fst (rg ! fst d)) \<noteq> fst (fst (rg ! snd d))) rest))"
        by simp
      from Cons.IH [OF rest this] True range False assms(1) show ?thesis
        by (simp add: non_pairs_loop_Cons)
    qed
  qed
qed

text \<open>
  \<^verbatim>\<open>corr_between_perturbation_non_pairs\<close> returns a list of \<open>n_samples\<close> values when
  the key columns exist, the grouped table is not empty and at least \<open>n_samples\<close> of the
  draws name two groups with different common keys.
\<close>

theorem non_pairs_returns_with_enough_draws:
  assumes "metadata_common \<in> set (meta_columns df)"
    and "metadata_perturbation \<in> set (meta_columns df)"
    and "replicate_grouped df metadata_common metadata_perturbation \<noteq> []"
    and "\<forall>d \<in> set draws.
           fst d < length (replicate_grouped df metadata_common metadata_perturbation) \<and>
           snd d < length (replicate_grouped df metadata_common metadata_perturbation)"
    and "0 \<le> n_samples"
    and "n_samples \<le> int (length (filter
           (\<lambda>d. fst (fst (replicate_grouped df metadata_common metadata_perturbation ! fst d))
                \<noteq> fst (fst (replicate_grouped df metadata_common metadata_perturbation ! snd d)))
           draws))"
  shows "\<exists>null_corr.
           snd (corr_between_perturbation_non_pairs df n_samples metadata_common
                  metadata_perturbation draws) = Some (Inr null_corr) \<and>
           int (length null_corr) = n_samples"
proof -
  let ?rg = "replicate_grouped df metadata_common metadata_perturbation"
  from assms(6) have "n_samples \<le> int (length ([] :: fnum list)) + int (length (filter
           (\<lambda>d. fst (fst (?rg ! fst d)) \<noteq> fst (fst (?rg ! snd d))) draws))"
    by simp
  from non_pairs_loop_enough_draws [OF assms(3,4) this]
  obtain out where out: "non_pairs_loop ?rg n_samples draws [] = Some (Inr out)" ..
  from non_pairs_loop_returns [OF out] assms(5) have "int (length out) = n_samples" by auto
  with out assms(1,2) show ?thesis
    by (simp add: corr_between_perturbation_non_pairs_def Let_def replicate_grouped_reset_index
        reset_index_meta_columns)
qed

theorem non_pairs_returns_with_enough_draws_witness:
  "\<exists>null_corr.
     snd (corr_between_perturbation_non_pairs example_df 1 ''moa'' ''pert'' [(0, 0), (0, 2)])
       = Some (Inr null_corr) \<and>
     int (length null_corr) = 1"
proof -
  have rg: "replicate_grouped example_df ''moa'' ''pert'' =
     [((''A'', ''a''), [[Num 0, Num 1, Num 2]]),
      ((''B'', ''b''), [[Num 0, Num 1, Num 2], [Num 0, Num 1, Num 2]]),
      ((''C'', ''c''), [[Num 2, Num 1, Num 0]])]"
    by (simp add: eval_defs)
  show ?thesis
    by (rule non_pairs_returns_with_enough_draws) (simp_all add: rg, simp_all add: example_df_def)
qed

lemma loc_in_range:
  assumes "\<forall>i \<in> set compounds. i < length (rows df)"
  shows "loc (reset_index df) compounds = Inr (drawn_rows (reset_index df) compounds)"
proof -
  let ?df = "reset_index df"
  have labels: "map label (rows ?df) = map int [0..<length (rows ?df)]"
    by (simp add: reset_index_label length_rows_reset_index)
  have "concat (map (\<lambda>l. filter (\<lambda>r. label r = int l) (rows ?df)) ls) = map (\<lambda>i. rows ?df ! i) ls"
    if "\<forall>i \<in> set ls. i < length (rows df)" for ls
    using that
    by (induction ls) (simp_all add: filter_label_position [OF labels] length_rows_reset_index)
  with assms show ?thesis
    by (auto simp: loc_def drawn_rows_def reset_index_label)
qed

lemma non_replicates_loop_enough_draws:
  assumes "col \<in> set (meta_columns df)" and "rows df \<noteq> []" and "k \<noteq> 1"
    and "\<forall>d \<in> set draws. \<forall>i \<in> set d. i < length (rows df)"
    and "n \<le> int (length acc)
           + int (length (filter
               (\<lambda>d. int (length (remdups (map (\<lambda>r. cell r col) (drawn_rows (reset_index df) d)))) = k)
               draws))"
  shows "\<exists>out. non_replicates_loop (reset_index df) n k col draws acc = Some (Inr out)"
  using assms(4,5)
proof (induction draws arbitrary: acc)
  case Nil
  then show ?case by (simp add: non_replicates_loop_Nil)
next
  case (Cons d rest)
  let ?df = "reset_index df"
  let ?sample = "drawn_rows ?df d"
  show ?case
  proof (cases "int (length acc) < n")
    case False
    then show ?thesis by (simp add: non_replicates_loop_Cons)
  next
    case True
    from Cons.prems(1) have range: "\<forall>i \<in> set d. i < length (rows df)"
      and rest: "\<forall>d \<in> set rest. \<forall>i \<in> set d. i < length (rows df)" by simp_all
    from assms(2) have ne: "rows ?df \<noteq> []"
      by (metis length_rows_reset_index length_0_conv)
    from assms(1) have col: "col \<in> set (meta_columns ?df)"
      by (simp add: reset_index_meta_columns)
    show ?thesis
    proof (cases "int (length (remdups (map (\<lambda>r. cell r col) ?sample))) = k")
      case accept: True
      have "length ?sample \<noteq> 1"
      proof
        assume "length ?sample = 1"
        then obtain r where "?sample = [r]" by (cases ?sample) auto
        with accept assms(3) show False by simp
      qed
      moreover from accept Cons.prems(2)
      have "n \<le> int (length (acc @ [sample_correlation ?sample]))
           + int (length (filter
               (\<lambda>d. int (length (remdups (map (\<lambda>r. cell r col) (drawn_rows ?df d)))) = k) rest))"
        by simp
      from Cons.IH [OF rest this]
      obtain out where "non_replicates_loop ?df n k col rest (acc @ [sample_correlation ?sample])
          = Some (Inr out)" ..
      ultimately show ?thesis using True ne col accept
        by (simp add: non_replicates_loop_Cons loc_in_range [OF range])
    next
      case False
      with Cons.prems(2) have "n \<le> int (length acc)
           + int (length (filter
               (\<lambda>d. int (length (remdups (map (\<lambda>r. cell r col) (drawn_rows ?df d)))) = k) rest))"
        by simp
      from Cons.IH [OF rest this] True ne col False show ?thesis
        by (simp add: non_replicates_loop_Cons loc_in_range [OF range])
    qed
  qed
qed

text \<open>
  \<^verbatim>\<open>corr_between_non_replicates\<close> returns a list of \<open>n_samples\<close> values when the group
  column exists, the dataframe has rows, \<open>n_replicates\<close> is not 1 and at least
  \<open>n_samples\<close> of the draws hit rows with \<open>n_replicates\<close> distinct group values.
\<close>

theorem non_replicates_returns_with_enough_draws:
  assumes "metadata_compound_name \<in> set (meta_columns df)" and "rows df \<noteq> []"
    and "n_replicates \<noteq> 1" and "0 \<le> n_samples"
    and "\<forall>compounds \<in> set draws. \<forall>i \<in> set compounds. i < length (rows df)"
    and "n_samples \<le> int (length (filter
           (\<lambda>compounds. int (card ((\<lambda>r. cell r metadata_compound_name) ` set (drawn_rows df compounds)))
              = n_replicates) draws))"
  shows "\<exists>null_corr.
           snd (corr_between_non_replicates df n_samples n_replicates metadata_compound_name draws)
             = Some (Inr null_corr) \<and>
           int (length null_corr) = n_samples"
proof -
  let ?df = "reset_index df"
  let ?col = metadata_compound_name
  have "filter (\<lambda>d. int (length (remdups (map (\<lambda>r. cell r ?col) (drawn_rows ?df d)))) = n_replicates) draws
      = filter (\<lambda>d. int (card ((\<lambda>r. cell r ?col) ` set (drawn_rows df d))) = n_replicates) draws"
  proof (rule filter_cong [OF refl])
    fix d assume "d \<in> set draws"
    with assms(5) have range: "\<forall>i \<in> set d. i < length (rows df)" by simp
    have "length (remdups (map (\<lambda>r. cell r ?col) (drawn_rows ?df d)))
        = card (set (map (\<lambda>r. cell r ?col) (drawn_rows df d)))"
      by (simp only: length_remdups_card_conv drawn_rows_reset_index_cells [OF range])
    then show "(int (length (remdups (map (\<lambda>r. cell r ?col) (drawn_rows ?df d)))) = n_replicates)
        = (int (card ((\<lambda>r. cell r ?col) ` set (drawn_rows df d))) = n_replicates)"
      by simp
  qed
  with assms(6) have "n_samples \<le> int (length ([] :: fnum list)) + int (length (filter
      (\<lambda>d. int (length (remdups (map (\<lambda>r. cell r ?col) (drawn_rows ?df d)))) = n_replicates) draws))"
    by simp
  from non_replicates_loop_enough_draws [OF assms(1,2,3,5) this]
  obtain out where out: "non_replicates_loop ?df n_samples n_replicates ?col draws [] = Some (Inr out)" ..
  from non_replicates_loop_returns [OF out] assms(4) have "int (length out) = n_samples" by auto
  with out show ?thesis by (simp add: corr_between_non_replicates_def Let_def)
qed

theorem non_replicates_returns_with_enough_draws_witness:
  "\<exists>null_corr.
     snd (corr_between_non_replicates example_df 2 2 ''moa'' [[0, 1], [1, 2], [1, 3]])
       = Some (Inr null_corr) \<and>
     int (length null_corr) = 2"
  by (rule non_replicates_returns_with_enough_draws)
    (simp_all add: example_df_def drawn_rows_def cell_def)

section \<open>ThresholdScorer: additivity\<close>

text \<open>
  For all distributions, the fraction of mode \<^verbatim>\<open>'both'\<close> is the sum of the fractions of
  the modes \<^verbatim>\<open>'right'\<close> and \<^verbatim>\<open>'left'\<close>, and its thresholds are theirs.
\<close>

theorem percent_score_both_adds_left_and_right:
  "\<exists>f_right f_left perc_95 perc_5.
     percent_score null_dist corr_dist ''right'' = Score2 f_right perc_95 \<and>
     percent_score null_dist corr_dist ''left'' = Score2 f_left perc_5 \<and>
     percent_score null_dist corr_dist ''both'' = Score3 (fadd f_right f_left) perc_95 perc_5"
  by (simp add: percent_score_def Let_def)

section \<open>ReplicateCorrelator: identical replicates\<close>

text \<open>
  The spec's scenario: four rows, two feature columns, two replicate groups of two rows
  with the same feature vector; the correlation of both groups is 1.
\<close>

theorem identical_replicates_correlate_fully:
  "corr_between_replicates identical_replicates_df ''compound''
     = (identical_replicates_df, Inr [(''x'', Num 1), (''y'', Num 1)])"
  by (simp add: eval_defs identical_replicates_df_def real_sqrt_divide flip: real_sqrt_mult)

end
